theory Spec2Isabelle
  imports Complex_Main "HOL-Library.Log_Nat"
begin

section \<open>JavaScript numbers\<close>

text \<open>
  Coordinates, sizes and pointer positions are JavaScript numbers, that is IEEE 754
  binary64 values: a number is finite or one of \<open>Infinity\<close>, \<open>-Infinity\<close> and \<open>NaN\<close>. A
  finite number is carried as the real it denotes. The result of an addition, a
  subtraction or a division of finite numbers is the exact result rounded to the nearest
  binary64 value, ties to the even significand, and an infinity where the rounded result
  exceeds the largest finite value; on the special values the operations are those of
  IEEE 754. The two zeros are one value \<open>Fin 0\<close>, read as \<open>+0\<close>: the sign of a result is
  the IEEE sign whenever no operand is \<open>-0\<close>. \<open>Fin\<close> accepts every real, so a statement
  about all numbers covers the binary64 values among them.
\<close>

datatype jsnum = Fin real | PosInf | NegInf | NaN

fun isFinite :: "jsnum \<Rightarrow> bool" where
  "isFinite (Fin _) = True"
| "isFinite _ = False"

text \<open>
  The binary exponent of a positive real: the integer \<open>k\<close> with \<open>2^k \<le> x < 2^(k+1)\<close>,
  from the bit length of the integer part, or of the integer part of the inverse.
\<close>

definition ilog2 :: "real \<Rightarrow> int" where
  "ilog2 x = (if 1 \<le> x then bitlen \<lfloor>x\<rfloor> - 1 else - bitlen (\<lceil>1 / x\<rceil> - 1))"

text \<open>Rounding a real to the nearest integer, a tie to the even one.\<close>

definition roundHalfEven :: "real \<Rightarrow> int" where
  "roundHalfEven q =
     (let f = \<lfloor>q\<rfloor>; r = q - of_int f
      in if r < 1 / 2 then f else if 1 / 2 < r then f + 1 else if even f then f else f + 1)"

text \<open>
  Rounding a real to binary64. The significand has 53 bits, so the spacing of the values
  around \<open>x\<close> is \<open>2^e\<close> with \<open>e\<close> the exponent of \<open>x\<close> less 52, and at least \<open>-1074\<close>, the
  spacing of the subnormal values. The rounded magnitude is a multiple of that spacing;
  from \<open>2^1024\<close> on the result is an infinity.
\<close>

definition round64 :: "real \<Rightarrow> jsnum" where
  "round64 x =
     (if x = 0 then Fin 0
      else let e = max (ilog2 \<bar>x\<bar> - 52) (- 1074);
               y = of_int (roundHalfEven (\<bar>x\<bar> / 2 powi e)) * 2 powi e
           in if 2 powi 1024 \<le> y then (if 0 < x then PosInf else NegInf)
              else Fin (if 0 < x then y else - y))"

instantiation jsnum :: "{plus, uminus, minus, inverse}"
begin

fun plus_jsnum :: "jsnum \<Rightarrow> jsnum \<Rightarrow> jsnum" where
  "plus_jsnum NaN _ = NaN"
| "plus_jsnum _ NaN = NaN"
| "plus_jsnum (Fin a) (Fin b) = round64 (a + b)"
| "plus_jsnum (Fin _) PosInf = PosInf"
| "plus_jsnum (Fin _) NegInf = NegInf"
| "plus_jsnum PosInf (Fin _) = PosInf"
| "plus_jsnum NegInf (Fin _) = NegInf"
| "plus_jsnum PosInf PosInf = PosInf"
| "plus_jsnum NegInf NegInf = NegInf"
| "plus_jsnum PosInf NegInf = NaN"
| "plus_jsnum NegInf PosInf = NaN"

fun uminus_jsnum :: "jsnum \<Rightarrow> jsnum" where
  "uminus_jsnum (Fin a) = Fin (- a)"
| "uminus_jsnum PosInf = NegInf"
| "uminus_jsnum NegInf = PosInf"
| "uminus_jsnum NaN = NaN"

definition minus_jsnum :: "jsnum \<Rightarrow> jsnum \<Rightarrow> jsnum" where
  "minus_jsnum a b = a + (- b)"

fun divide_jsnum :: "jsnum \<Rightarrow> jsnum \<Rightarrow> jsnum" where
  "divide_jsnum NaN _ = NaN"
| "divide_jsnum _ NaN = NaN"
| "divide_jsnum (Fin a) (Fin b) =
     (if b = 0 then (if a = 0 then NaN else if 0 < a then PosInf else NegInf)
      else round64 (a / b))"
| "divide_jsnum (Fin _) PosInf = Fin 0"
| "divide_jsnum (Fin _) NegInf = Fin 0"
| "divide_jsnum PosInf (Fin b) = (if 0 \<le> b then PosInf else NegInf)"
| "divide_jsnum NegInf (Fin b) = (if 0 \<le> b then NegInf else PosInf)"
| "divide_jsnum PosInf PosInf = NaN"
| "divide_jsnum PosInf NegInf = NaN"
| "divide_jsnum NegInf PosInf = NaN"
| "divide_jsnum NegInf NegInf = NaN"

definition inverse_jsnum :: "jsnum \<Rightarrow> jsnum" where
  "inverse_jsnum a = divide (Fin 1) a"

instance ..

end

text \<open>
  Reading a numeric property that the object does not have gives \<open>undefined\<close>, and
  \<open>undefined + n\<close> is \<open>NaN\<close>.
\<close>

fun toNumber :: "jsnum option \<Rightarrow> jsnum" where
  "toNumber None = NaN"
| "toNumber (Some n) = n"

text \<open>Truthiness of a value of type \<open>string | null\<close>: \<open>null\<close> and \<open>''\<close> are falsy.\<close>

fun truthy :: "string option \<Rightarrow> bool" where
  "truthy None = False"
| "truthy (Some s) = (s \<noteq> [])"

datatype jserror = TypeError


section \<open>The poster model\<close>

text \<open>
  Modelled from the spec: the declarations of \<open>TextElement\<close> and \<open>PosterState\<close> live in
  \<open>types.ts\<close>; the fields are those of the spec's data model and of the object literals
  of \<open>INITIAL_STATE\<close>. An object at run time may lack any of its properties (the
  updates of \<open>updateElement\<close> are a \<open>Partial\<close> of the element type), so every field is
  optional: \<open>None\<close> is a property that is absent. Fonts and colours are strings.
\<close>

record TextElement =
  el_id :: "string option"
  el_label :: "string option"
  el_text :: "string option"
  el_x :: "jsnum option"
  el_y :: "jsnum option"
  el_fontSize :: "jsnum option"
  el_fontFamily :: "string option"
  el_color :: "string option"
  el_width :: "jsnum option"

record PosterState =
  backgroundImage :: "string option"
  elements :: "string \<rightharpoonup> TextElement"

text \<open>The object with no property: what spreading \<open>undefined\<close> contributes.\<close>

definition emptyObject :: TextElement where
  "emptyObject =
     \<lparr>el_id = None, el_label = None, el_text = None, el_x = None, el_y = None,
      el_fontSize = None, el_fontFamily = None, el_color = None, el_width = None\<rparr>"

text \<open>
  \<open>{ ...a, ...b }\<close>: the properties of \<open>a\<close>, overwritten by those \<open>b\<close> has. Spreading a
  missing object (\<open>undefined\<close>) copies nothing.
\<close>

fun override :: "'a option \<Rightarrow> 'a option \<Rightarrow> 'a option" where
  "override a None = a"
| "override a (Some v) = Some v"

definition spread :: "TextElement option \<Rightarrow> TextElement \<Rightarrow> TextElement" where
  "spread a b =
     (let base = (case a of None \<Rightarrow> emptyObject | Some el \<Rightarrow> el)
      in \<lparr>el_id = override (el_id base) (el_id b),
          el_label = override (el_label base) (el_label b),
          el_text = override (el_text base) (el_text b),
          el_x = override (el_x base) (el_x b),
          el_y = override (el_y base) (el_y b),
          el_fontSize = override (el_fontSize base) (el_fontSize b),
          el_fontFamily = override (el_fontFamily base) (el_fontFamily b),
          el_color = override (el_color base) (el_color b),
          el_width = override (el_width base) (el_width b)\<rparr>)"

text \<open>
  The Arabic labels and texts of \<open>INITIAL_STATE\<close>, as the bytes of their UTF-8 encoding.
\<close>

definition date_label :: string where
  "date_label =
     [CHR 0xD8, CHR 0xA7, CHR 0xD9, CHR 0x84, CHR 0xD8, CHR 0xAA, CHR 0xD8, CHR 0xA7,
      CHR 0xD8, CHR 0xB1, CHR 0xD9, CHR 0x8A, CHR 0xD8, CHR 0xAE]"

definition date_text :: string where
  "date_text =
     [CHR 0xD8, CHR 0xA7, CHR 0xD9, CHR 0x84, CHR 0xD8, CHR 0xAE, CHR 0xD9, CHR 0x85,
      CHR 0xD9, CHR 0x8A, CHR 0xD8, CHR 0xB3, CHR 0x20, CHR 0x30, CHR 0x37, CHR 0x20,
      CHR 0xD8, CHR 0xA3, CHR 0xD9, CHR 0x88, CHR 0xD8, CHR 0xAA, CHR 0x20, CHR 0x32,
      CHR 0x30, CHR 0x32, CHR 0x35]"

definition honorific_label :: string where
  "honorific_label =
     [CHR 0xD8, CHR 0xA7, CHR 0xD9, CHR 0x84, CHR 0xD9, CHR 0x84, CHR 0xD9, CHR 0x82,
      CHR 0xD8, CHR 0xA8, CHR 0x20, CHR 0xD8, CHR 0xA7, CHR 0xD9, CHR 0x84, CHR 0xD8,
      CHR 0xB9, CHR 0xD9, CHR 0x84, CHR 0xD9, CHR 0x85, CHR 0xD9, CHR 0x8A]"

definition honorific_text :: string where
  "honorific_text =
     [CHR 0xD8, CHR 0xA7, CHR 0xD9, CHR 0x84, CHR 0xD8, CHR 0xAF, CHR 0xD9, CHR 0x83,
      CHR 0xD8, CHR 0xAA, CHR 0xD9, CHR 0x88, CHR 0xD8, CHR 0xB1]"

definition name_label :: string where
  "name_label =
     [CHR 0xD8, CHR 0xA7, CHR 0xD8, CHR 0xB3, CHR 0xD9, CHR 0x85, CHR 0x20, CHR 0xD8,
      CHR 0xA7, CHR 0xD9, CHR 0x84, CHR 0xD9, CHR 0x85, CHR 0xD8, CHR 0xAD, CHR 0xD8,
      CHR 0xA7, CHR 0xD8, CHR 0xB6, CHR 0xD8, CHR 0xB1]"

definition name_text :: string where
  "name_text =
     [CHR 0xD8, CHR 0xB9, CHR 0xD8, CHR 0xA8, CHR 0xD8, CHR 0xAF, CHR 0x20, CHR 0xD8,
      CHR 0xA7, CHR 0xD9, CHR 0x84, CHR 0xD8, CHR 0xB1, CHR 0xD8, CHR 0xAD, CHR 0xD9,
      CHR 0x85, CHR 0xD8, CHR 0xA7, CHR 0xD9, CHR 0x86, CHR 0x20, CHR 0xD8, CHR 0xA8,
      CHR 0xD9, CHR 0x86, CHR 0x20, CHR 0xD8, CHR 0xA5, CHR 0xD8, CHR 0xA8, CHR 0xD8,
      CHR 0xB1, CHR 0xD8, CHR 0xA7, CHR 0xD9, CHR 0x87, CHR 0xD9, CHR 0x8A, CHR 0xD9,
      CHR 0x85, CHR 0x20, CHR 0xD9, CHR 0x86, CHR 0xD8, CHR 0xAC, CHR 0xD8, CHR 0xA7,
      CHR 0xD8, CHR 0xB1]"

definition title_label :: string where
  "title_label =
     [CHR 0xD8, CHR 0xB9, CHR 0xD9, CHR 0x86, CHR 0xD9, CHR 0x88, CHR 0xD8, CHR 0xA7,
      CHR 0xD9, CHR 0x86, CHR 0x20, CHR 0xD8, CHR 0xA7, CHR 0xD9, CHR 0x84, CHR 0xD9,
      CHR 0x85, CHR 0xD8, CHR 0xAD, CHR 0xD8, CHR 0xA7, CHR 0xD8, CHR 0xB6, CHR 0xD8,
      CHR 0xB1, CHR 0xD8, CHR 0xA9]"

definition title_text :: string where
  "title_text =
     [CHR 0xD9, CHR 0x85, CHR 0xD9, CHR 0x86, CHR 0x20, CHR 0xD8, CHR 0xA7, CHR 0xD9,
      CHR 0x84, CHR 0xD8, CHR 0xAA, CHR 0xD9, CHR 0x85, CHR 0xD8, CHR 0xA7, CHR 0xD8,
      CHR 0xB3, CHR 0xD9, CHR 0x83, CHR 0x20, CHR 0xD8, CHR 0xA7, CHR 0xD9, CHR 0x84,
      CHR 0xD8, CHR 0xA7, CHR 0xD8, CHR 0xAC, CHR 0xD8, CHR 0xAA, CHR 0xD9, CHR 0x85,
      CHR 0xD8, CHR 0xA7, CHR 0xD8, CHR 0xB9, CHR 0xD9, CHR 0x8A, CHR 0x20, CHR 0xD8,
      CHR 0xA5, CHR 0xD9, CHR 0x84, CHR 0xD9, CHR 0x89, CHR 0x20, CHR 0xD8, CHR 0xA7,
      CHR 0xD9, CHR 0x84, CHR 0xD8, CHR 0xAA, CHR 0xD9, CHR 0x82, CHR 0xD8, CHR 0xAF,
      CHR 0xD9, CHR 0x85, CHR 0x20, CHR 0xD8, CHR 0xA7, CHR 0xD9, CHR 0x84, CHR 0xD8,
      CHR 0xAD, CHR 0xD8, CHR 0xB6, CHR 0xD8, CHR 0xA7, CHR 0xD8, CHR 0xB1, CHR 0xD9,
      CHR 0x8A, CHR 0x0A, CHR 0xD9, CHR 0x82, CHR 0xD8, CHR 0xB1, CHR 0xD8, CHR 0xA7,
      CHR 0xD8, CHR 0xA1, CHR 0xD8, CHR 0xA9, CHR 0x20, CHR 0xD9, CHR 0x81, CHR 0xD9,
      CHR 0x8A, CHR 0x20, CHR 0xD9, CHR 0x85, CHR 0xD9, CHR 0x81, CHR 0xD9, CHR 0x87,
      CHR 0xD9, CHR 0x88, CHR 0xD9, CHR 0x85, CHR 0x20, CHR 0xD8, CHR 0xB1, CHR 0xD8,
      CHR 0xA3, CHR 0xD8, CHR 0xB3, CHR 0x20, CHR 0xD8, CHR 0xA7, CHR 0xD9, CHR 0x84,
      CHR 0xD9, CHR 0x85, CHR 0xD8, CHR 0xA7, CHR 0xD9, CHR 0x84, CHR 0x20, CHR 0xD8,
      CHR 0xA7, CHR 0xD9, CHR 0x84, CHR 0xD8, CHR 0xA7, CHR 0xD8, CHR 0xAC, CHR 0xD8,
      CHR 0xAA, CHR 0xD9, CHR 0x85, CHR 0xD8, CHR 0xA7, CHR 0xD8, CHR 0xB9, CHR 0xD9, CHR 0x8A]"

definition INITIAL_STATE :: PosterState where
  "INITIAL_STATE =
     \<lparr>backgroundImage = None,
      elements =
        [''date'' \<mapsto>
           \<lparr>el_id = Some ''date'', el_label = Some date_label, el_text = Some date_text,
            el_x = Some (Fin 400), el_y = Some (Fin 120), el_fontSize = Some (Fin 48),
            el_fontFamily = Some ''Cairo'', el_color = Some ''#004d40'', el_width = None\<rparr>,
         ''honorific'' \<mapsto>
           \<lparr>el_id = Some ''honorific'', el_label = Some honorific_label,
            el_text = Some honorific_text,
            el_x = Some (Fin 550), el_y = Some (Fin 220), el_fontSize = Some (Fin 36),
            el_fontFamily = Some ''Amiri'', el_color = Some ''#004d40'', el_width = None\<rparr>,
         ''name'' \<mapsto>
           \<lparr>el_id = Some ''name'', el_label = Some name_label, el_text = Some name_text,
            el_x = Some (Fin 400), el_y = Some (Fin 270), el_fontSize = Some (Fin 60),
            el_fontFamily = Some ''Amiri'', el_color = Some ''#1a1a1a'', el_width = None\<rparr>,
         ''title'' \<mapsto>
           \<lparr>el_id = Some ''title'', el_label = Some title_label, el_text = Some title_text,
            el_x = Some (Fin 165), el_y = Some (Fin 400), el_fontSize = Some (Fin 72),
            el_fontFamily = Some ''Lalezar'', el_color = Some ''#b71c1c'',
            el_width = Some (Fin 950)\<rparr>]\<rparr>"


section \<open>The host: \<open>App\<close>\<close>

text \<open>
  \<open>App\<close> owns the poster state and the selection. \<open>setData (prev => ...)\<close> is a function
  from the previous poster state to the next one.
\<close>

definition updateElement :: "string \<Rightarrow> TextElement \<Rightarrow> PosterState \<Rightarrow> PosterState" where
  "updateElement key updates prev =
     prev\<lparr>elements := (elements prev)(key \<mapsto> spread (elements prev key) updates)\<rparr>"

definition handlePositionUpdate :: "string \<Rightarrow> jsnum \<Rightarrow> jsnum \<Rightarrow> PosterState \<Rightarrow> PosterState" where
  "handlePositionUpdate key nx ny =
     updateElement key (emptyObject\<lparr>el_x := Some nx, el_y := Some ny\<rparr>)"


section \<open>The drag controller: \<open>PosterCanvas\<close>\<close>

text \<open>
  The component's state is the three \<open>useState\<close> cells. A handler reads the state and
  the props of the last render and calls setters and callbacks; here it returns the next
  state together with the calls it made on the event and on the host, in order. The host's
  poster state is an argument that no handler returns: the controller reads it and
  cannot write it.
\<close>

record Point =
  pt_x :: jsnum
  pt_y :: jsnum

record DragState =
  isDragging :: bool
  dragOffset :: Point
  draggedId :: "string option"

definition initialDragState :: DragState where
  "initialDragState =
     \<lparr>isDragging = False, dragOffset = \<lparr>pt_x = Fin 0, pt_y = Fin 0\<rparr>, draggedId = None\<rparr>"

record PointerEvent =
  clientX :: jsnum
  clientY :: jsnum

text \<open>
  What \<open>getBoundingClientRect()\<close> of the mounted surface returns. \<open>containerRef.current\<close>
  is \<open>None\<close> while the surface is not mounted.
\<close>

record DOMRect =
  rect_width :: jsnum
  rect_height :: jsnum

datatype effect =
  PreventDefault
| StopPropagation
| OnSelect string
| OnUpdatePosition string jsnum jsnum

definition handlePointerDown ::
  "PointerEvent \<Rightarrow> string \<Rightarrow> jsnum option \<Rightarrow> jsnum option \<Rightarrow> DragState
     \<Rightarrow> DragState \<times> effect list" where
  "handlePointerDown e elementId currentX currentY st =
     (st\<lparr>draggedId := Some elementId, isDragging := True,
         dragOffset := \<lparr>pt_x = clientX e, pt_y = clientY e\<rparr>\<rparr>,
      [PreventDefault, StopPropagation, OnSelect elementId])"

definition handlePointerMove ::
  "PosterState \<Rightarrow> DOMRect option \<Rightarrow> PointerEvent \<Rightarrow> DragState
     \<Rightarrow> jserror + (DragState \<times> effect list)" where
  "handlePointerMove props_data containerRef e st =
     (if \<not> isDragging st \<or> \<not> truthy (draggedId st) then Inr (st, [])
      else case containerRef of
        None \<Rightarrow> Inr (st, [])
      | Some rect \<Rightarrow>
          (let scale = rect_width rect / Fin 1280;
               deltaX = (clientX e - pt_x (dragOffset st)) / scale;
               deltaY = (clientY e - pt_y (dragOffset st)) / scale;
               elementKey = (case draggedId st of Some k \<Rightarrow> k | None \<Rightarrow> [])
           in case elements props_data elementKey of
                None \<Rightarrow> Inl TypeError
              | Some currentEl \<Rightarrow>
                  Inr (st\<lparr>dragOffset := \<lparr>pt_x = clientX e, pt_y = clientY e\<rparr>\<rparr>,
                       [PreventDefault,
                        OnUpdatePosition elementKey
                          (toNumber (el_x currentEl) + deltaX)
                          (toNumber (el_y currentEl) + deltaY)])))"

definition handlePointerUp :: "DragState \<Rightarrow> DragState" where
  "handlePointerUp st = st\<lparr>isDragging := False, draggedId := None\<rparr>"

definition handleGlobalUp :: "DragState \<Rightarrow> DragState" where
  "handleGlobalUp st =
     (if isDragging st then st\<lparr>isDragging := False, draggedId := None\<rparr> else st)"


section \<open>The editor: host and controller together\<close>

text \<open>
  \<open>App\<close> keeps the poster state and the selection in two \<open>useState\<close> cells and hands
  \<open>setSelectedId\<close> and \<open>handlePositionUpdate\<close> to the canvas as \<open>onSelect\<close> and
  \<open>onUpdatePosition\<close>.
\<close>

record AppState =
  data :: PosterState
  selectedId :: "string option"

record System =
  app :: AppState
  canvas :: DragState

definition initialSystem :: System where
  "initialSystem =
     \<lparr>app = \<lparr>data = INITIAL_STATE, selectedId = Some ''title''\<rparr>, canvas = initialDragState\<rparr>"

text \<open>What a call made by a handler does in the host.\<close>

fun applyEffect :: "AppState \<Rightarrow> effect \<Rightarrow> AppState" where
  "applyEffect a PreventDefault = a"
| "applyEffect a StopPropagation = a"
| "applyEffect a (OnSelect k) = a\<lparr>selectedId := Some k\<rparr>"
| "applyEffect a (OnUpdatePosition k nx ny) = a\<lparr>data := handlePositionUpdate k nx ny (data a)\<rparr>"

text \<open>
  The controls of the sidebar call \<open>updateElement (selectedElement.id, updates)\<close> with one
  property each.
\<close>

datatype edit = EditText string | EditFontFamily string | EditFontSize jsnum | EditColor string

fun editUpdates :: "edit \<Rightarrow> TextElement" where
  "editUpdates (EditText t) = emptyObject\<lparr>el_text := Some t\<rparr>"
| "editUpdates (EditFontFamily f) = emptyObject\<lparr>el_fontFamily := Some f\<rparr>"
| "editUpdates (EditFontSize n) = emptyObject\<lparr>el_fontSize := Some n\<rparr>"
| "editUpdates (EditColor c) = emptyObject\<lparr>el_color := Some c\<rparr>"

text \<open>A computed property key: \<open>undefined\<close> becomes the string \<open>undefined\<close>.\<close>

fun propertyKey :: "string option \<Rightarrow> string" where
  "propertyKey None = ''undefined''"
| "propertyKey (Some k) = k"

definition sidebarEdit :: "edit \<Rightarrow> AppState \<Rightarrow> AppState" where
  "sidebarEdit ed a =
     (case (if truthy (selectedId a) then elements (data a) (propertyKey (selectedId a)) else None) of
        None \<Rightarrow> a
      | Some selectedElement \<Rightarrow>
          a\<lparr>data := updateElement (propertyKey (el_id selectedElement)) (editUpdates ed) (data a)\<rparr>)"

text \<open>
  The update that \<open>handleAiEnhancement\<close> applies once the service has answered:
  \<open>r || prev.elements.date.text\<close> reads the previous element only when \<open>r\<close> is falsy, and
  reading a property of a missing element throws.
\<close>

definition enhancedText :: "string option \<Rightarrow> TextElement option \<Rightarrow> jserror + string option" where
  "enhancedText r prevEl =
     (if truthy r then Inr r
      else case prevEl of None \<Rightarrow> Inl TypeError | Some el \<Rightarrow> Inr (el_text el))"

definition aiEnhancementUpdate ::
  "string option \<Rightarrow> string option \<Rightarrow> PosterState \<Rightarrow> jserror + PosterState" where
  "aiEnhancementUpdate formattedDate enhancedTitle prev =
     (case enhancedText formattedDate (elements prev ''date'') of
        Inl err \<Rightarrow> Inl err
      | Inr dateText \<Rightarrow>
          (case enhancedText enhancedTitle (elements prev ''title'') of
             Inl err \<Rightarrow> Inl err
           | Inr titleText \<Rightarrow>
               Inr (prev\<lparr>elements := (elements prev)
                     (''date'' \<mapsto> spread (elements prev ''date'') (emptyObject\<lparr>el_text := dateText\<rparr>),
                      ''title'' \<mapsto>
                        spread (elements prev ''title'') (emptyObject\<lparr>el_text := titleText\<rparr>))\<rparr>)))"

text \<open>
  The events of the editor. A pointer-down handler exists for each rendered element, that
  is for each key of the element map: a pointer-down for a key that is not rendered is no
  event of the editor, and \<open>dispatch\<close> leaves the state as it is. The pointer-up listener
  is the one on \<open>window\<close>: a release over an element reaches it by bubbling
  (\<open>handlePointerUp\<close> is bound to no element). \<open>SetSelectedId\<close> stands for the host's
  own calls of \<open>setSelectedId\<close>: a layer button of the sidebar, and the deselection and
  its restoring around an export.
  \<open>SetBackgroundImage\<close> is the upload or the removal of the background. Events are handled
  one at a time, each on the state the previous one left.
\<close>

datatype event =
  PointerDown string PointerEvent
| PointerMove PointerEvent "DOMRect option"
| WindowPointerUp PointerEvent
| SetSelectedId "string option"
| SidebarEdit edit
| SetBackgroundImage "string option"
| AiEnhanced "string option" "string option"

fun dispatch :: "System \<Rightarrow> event \<Rightarrow> jserror + System" where
  "dispatch s (PointerDown key e) =
     (case elements (data (app s)) key of
        None \<Rightarrow> Inr s
      | Some el \<Rightarrow>
          (case handlePointerDown e key (el_x el) (el_y el) (canvas s) of
             (st, calls) \<Rightarrow> Inr \<lparr>app = foldl applyEffect (app s) calls, canvas = st\<rparr>))"
| "dispatch s (PointerMove e containerRef) =
     (case handlePointerMove (data (app s)) containerRef e (canvas s) of
        Inl err \<Rightarrow> Inl err
      | Inr (st, calls) \<Rightarrow> Inr \<lparr>app = foldl applyEffect (app s) calls, canvas = st\<rparr>)"
| "dispatch s (WindowPointerUp e) = Inr (s\<lparr>canvas := handleGlobalUp (canvas s)\<rparr>)"
| "dispatch s (SetSelectedId v) = Inr (s\<lparr>app := (app s)\<lparr>selectedId := v\<rparr>\<rparr>)"
| "dispatch s (SidebarEdit ed) = Inr (s\<lparr>app := sidebarEdit ed (app s)\<rparr>)"
| "dispatch s (SetBackgroundImage img) =
     Inr (s\<lparr>app := (app s)\<lparr>data := (data (app s))\<lparr>backgroundImage := img\<rparr>\<rparr>\<rparr>)"
| "dispatch s (AiEnhanced formattedDate enhancedTitle) =
     (case aiEnhancementUpdate formattedDate enhancedTitle (data (app s)) of
        Inl err \<Rightarrow> Inl err
      | Inr d \<Rightarrow> Inr (s\<lparr>app := (app s)\<lparr>data := d\<rparr>\<rparr>))"

text \<open>A sequence of events stops at the first uncaught exception.\<close>

fun run :: "System \<Rightarrow> event list \<Rightarrow> jserror + System" where
  "run s [] = Inr s"
| "run s (ev # evs) = (case dispatch s ev of Inl err \<Rightarrow> Inl err | Inr s' \<Rightarrow> run s' evs)"


section \<open>Notions used to state the properties\<close>

text \<open>The keys of the element map of \<open>INITIAL_STATE\<close>.\<close>

definition elementKeys :: "string set" where
  "elementKeys = {''date'', ''honorific'', ''name'', ''title''}"

text \<open>
  The invariant of the editor: the element map has the four initial keys, every element
  carries its key as its \<open>id\<close>, and a dragged identifier is one of the keys.
\<close>

definition wellFormed :: "System \<Rightarrow> bool" where
  "wellFormed s \<longleftrightarrow>
     dom (elements (data (app s))) = elementKeys
     \<and> (\<forall>k el. elements (data (app s)) k = Some el \<longrightarrow> el_id el = Some k)
     \<and> (\<forall>k. draggedId (canvas s) = Some k \<longrightarrow> k \<in> elementKeys)"

text \<open>The events that the drag controller handles.\<close>

fun isControllerEvent :: "event \<Rightarrow> bool" where
  "isControllerEvent (PointerDown _ _) = True"
| "isControllerEvent (PointerMove _ _) = True"
| "isControllerEvent (WindowPointerUp _) = True"
| "isControllerEvent _ = False"







text \<open>
  The editor after a pointer-down at device position \<open>(100, 100)\<close> on the element
  \<open>date\<close> of the initial poster.
\<close>

definition midDragOfDate :: System where
  "midDragOfDate =
     \<lparr>app = \<lparr>data = INITIAL_STATE, selectedId = Some ''date''\<rparr>,
      canvas = \<lparr>isDragging = True, dragOffset = \<lparr>pt_x = Fin 100, pt_y = Fin 100\<rparr>,
                 draggedId = Some ''date''\<rparr>\<rparr>"


section \<open>Basic facts\<close>

subsection \<open>Rounding\<close>

lemma pow2_powr: "(2::real) powi e = 2 powr (of_int e)"
  by (simp add: powr_real_of_int')

lemma ilog2_eq:
  assumes "0 < x"
  shows "ilog2 x = \<lfloor>log 2 x\<rfloor>"
proof (cases "1 \<le> x")
  case True
  then have fl: "0 < \<lfloor>x\<rfloor>" by simp
  define k where "k = bitlen \<lfloor>x\<rfloor> - 1"
  from bitlen_bounds [OF fl] have b: "2 ^ nat k \<le> \<lfloor>x\<rfloor>" "\<lfloor>x\<rfloor> < 2 ^ nat (k + 1)"
    by (simp_all add: k_def)
  have k0: "0 \<le> k" using fl by (simp add: k_def bitlen_alt_def)
  have "(2::real) ^ nat k \<le> of_int \<lfloor>x\<rfloor>"
    using b(1) by (metis of_int_le_iff of_int_numeral of_int_power)
  then have lo: "(2::real) ^ nat k \<le> x" by linarith
  have "\<lfloor>x\<rfloor> + 1 \<le> 2 ^ nat (k + 1)" using b(2) by simp
  then have "of_int (\<lfloor>x\<rfloor> + 1) \<le> (2::real) ^ nat (k + 1)"
    by (metis of_int_le_iff of_int_numeral of_int_power)
  then have hi: "x < (2::real) ^ nat (k + 1)" by linarith
  have "2 powi k \<le> x" "x < 2 powi (k + 1)"
    using lo hi k0 by (simp_all add: power_int_def)
  then have "2 powr (of_int k) \<le> x" "x < 2 powr (of_int k + 1)"
    by (simp_all add: pow2_powr)
  then have "\<lfloor>log 2 x\<rfloor> = k"
    using assms by (subst floor_log_eq_powr_iff) simp_all
  then show ?thesis using True by (simp add: ilog2_def k_def)
next
  case False
  then have x1: "x < 1" by simp
  define y where "y = 1 / x"
  have y1: "1 < y" using assms x1 by (simp add: y_def)
  define n where "n = \<lceil>y\<rceil> - 1"
  have n0: "0 < n" using y1 by (simp add: n_def less_ceiling_iff)
  define b where "b = bitlen n"
  from bitlen_bounds [OF n0] have bb: "2 ^ nat (b - 1) \<le> n" "n < 2 ^ nat b"
    by (simp_all add: b_def)
  have b0: "1 \<le> b" using n0 by (simp add: b_def bitlen_alt_def)
  have "(2::real) ^ nat (b - 1) \<le> of_int n"
    using bb(1) by (metis of_int_le_iff of_int_numeral of_int_power)
  moreover have "of_int n < y" unfolding n_def by linarith
  ultimately have lo: "(2::real) ^ nat (b - 1) < y" by linarith
  have "n + 1 \<le> 2 ^ nat b" using bb(2) by simp
  then have "of_int (n + 1) \<le> (2::real) ^ nat b"
    by (metis of_int_le_iff of_int_numeral of_int_power)
  moreover have "y \<le> of_int (n + 1)" unfolding n_def by simp
  ultimately have hi: "y \<le> (2::real) ^ nat b" by linarith
  have xy: "x = 1 / y" using assms by (simp add: y_def)
  have "1 / (2::real) ^ nat b \<le> x"
    unfolding xy using hi y1 by (simp add: frac_le)
  moreover have "x < 1 / (2::real) ^ nat (b - 1)"
    unfolding xy using lo by (simp add: frac_less2)
  moreover have "2 powi (- b) = 1 / (2::real) ^ nat b"
    using b0 by (simp add: power_int_def field_simps)
  moreover have "2 powi (- b + 1) = 1 / (2::real) ^ nat (b - 1)"
  proof (cases "b = 1")
    case True
    then show ?thesis by simp
  next
    case False
    then have "- b + 1 < 0" "nat (- (- b + 1)) = nat (b - 1)" using b0 by simp_all
    then show ?thesis by (simp add: power_int_def field_simps)
  qed
  ultimately have "2 powi (- b) \<le> x" "x < 2 powi (- b + 1)"
    by simp_all
  then have "2 powr (of_int (- b)) \<le> x" "x < 2 powr (of_int (- b) + 1)"
    by (simp_all add: pow2_powr)
  then have "\<lfloor>log 2 x\<rfloor> = - b"
    using assms by (subst floor_log_eq_powr_iff) simp_all
  then show ?thesis using False by (simp add: ilog2_def b_def n_def y_def)
qed

lemma ilog2_bounds:
  assumes "0 < x"
  shows "2 powi (ilog2 x) \<le> x" and "x < 2 powi (ilog2 x + 1)"
proof -
  have "\<lfloor>log 2 x\<rfloor> = ilog2 x" by (simp add: ilog2_eq assms)
  then have "2 powr (of_int (ilog2 x)) \<le> x \<and> x < 2 powr (of_int (ilog2 x) + 1)"
    using assms by (subst (asm) floor_log_eq_powr_iff) simp_all
  then show "2 powi (ilog2 x) \<le> x" and "x < 2 powi (ilog2 x + 1)"
    by (simp_all add: pow2_powr)
qed

lemma roundHalfEven_of_int: "roundHalfEven (of_int n) = n"
  by (simp add: roundHalfEven_def)


text \<open>A real that is a binary64 value is its own rounding.\<close>

lemma pow2_less_exp: "(2::real) powi a < 2 powi b \<Longrightarrow> a < b"
  by (rule ccontr) (use power_int_increasing [of b a "2::real"] in simp)


lemma round64_exact:
  assumes x: "x = of_int m * 2 powi k" and m: "\<bar>m\<bar> < 2 ^ 53" and k: "- 1074 \<le> k" "k \<le> 971"
  shows "round64 x = Fin x"
proof (cases "x = 0")
  case True
  then show ?thesis by (simp add: round64_def)
next
  case False
  define e where "e = max (ilog2 \<bar>x\<bar> - 52) (- 1074)"
  have ax: "\<bar>x\<bar> = of_int \<bar>m\<bar> * 2 powi k"
    by (simp add: x abs_mult power_int_abs)
  have pos: "0 < \<bar>x\<bar>" using False by simp
  have "of_int \<bar>m\<bar> < (2::real) ^ 53"
    using m by (metis of_int_less_iff of_int_numeral of_int_power)
  then have "\<bar>x\<bar> < 2 ^ 53 * 2 powi k"
    unfolding ax by (intro mult_strict_right_mono) simp_all
  also have "\<dots> = 2 powi (53 + k)"
    by (simp add: power_int_add)
  finally have up: "\<bar>x\<bar> < 2 powi (53 + k)" .
  from ilog2_bounds(1) [OF pos] up have "(2::real) powi (ilog2 \<bar>x\<bar>) < 2 powi (53 + k)"
    by linarith
  then have "ilog2 \<bar>x\<bar> < 53 + k" by (rule pow2_less_exp)
  then have ek: "e \<le> k" using k by (simp add: e_def)
  have "2 powi k = (2::real) powi (k - e) * 2 powi e"
    by (simp flip: power_int_add)
  also have "(2::real) powi (k - e) = of_int (2 ^ nat (k - e))"
    using ek by (simp add: power_int_def)
  finally have q: "\<bar>x\<bar> / 2 powi e = of_int (\<bar>m\<bar> * 2 ^ nat (k - e))"
    by (simp add: ax)
  have y: "of_int (roundHalfEven (\<bar>x\<bar> / 2 powi e)) * 2 powi e = \<bar>x\<bar>"
  proof -
    have "real_of_int (roundHalfEven (\<bar>x\<bar> / 2 powi e)) = \<bar>x\<bar> / 2 powi e"
      unfolding q by (simp only: roundHalfEven_of_int)
    then show ?thesis by simp
  qed
  have "2 powi (53 + k) \<le> (2::real) powi 1024"
    using k by (intro power_int_increasing) simp_all
  then have "\<not> 2 powi 1024 \<le> \<bar>x\<bar>" using up by simp
  then show ?thesis
    using False unfolding round64_def Let_def e_def [symmetric] y
    by (auto simp: not_less)
qed

lemma round64_of_int: "\<bar>n\<bar> < 2 ^ 53 \<Longrightarrow> round64 (of_int n) = Fin (of_int n)"
  using round64_exact [of "of_int n" n 0] by simp

lemma round64_numeral [simp]:
  "numeral w < (2::int) ^ 53 \<Longrightarrow> round64 (numeral w) = Fin (numeral w)"
  using round64_of_int [of "numeral w"] by simp

lemma round64_neg_numeral [simp]:
  "numeral w < (2::int) ^ 53 \<Longrightarrow> round64 (- numeral w) = Fin (- numeral w)"
  using round64_of_int [of "- numeral w"] by simp

lemma round64_0 [simp]: "round64 0 = Fin 0"
  by (simp add: round64_def)

lemma round64_1 [simp]: "round64 1 = Fin 1"
  using round64_of_int [of 1] by simp

lemma round64_half [simp]: "round64 (1 / 2) = Fin (1 / 2)"
  using round64_exact [of "1 / 2" 1 "- 1"] by simp

text \<open>From \<open>2^1024\<close> on, the rounding is an infinity.\<close>

lemma roundHalfEven_ge_floor: "\<lfloor>q\<rfloor> \<le> roundHalfEven q"
  by (simp add: roundHalfEven_def Let_def)

lemma round64_overflow:
  assumes "2 powi 1024 \<le> \<bar>x\<bar>"
  shows "round64 x = (if 0 < x then PosInf else NegInf)"
proof -
  define L where "L = ilog2 \<bar>x\<bar>"
  define e where "e = max (L - 52) (- 1074)"
  define r where "r = roundHalfEven (\<bar>x\<bar> / 2 powi e)"
  have "(0::real) < 2 powi 1024" by simp
  then have pos: "0 < \<bar>x\<bar>" using assms by linarith
  then have x0: "x \<noteq> 0" by simp
  have lo: "2 powi L \<le> \<bar>x\<bar>" and hi: "\<bar>x\<bar> < 2 powi (L + 1)"
    unfolding L_def by (rule ilog2_bounds [OF pos])+
  from assms hi have "(2::real) powi 1024 < 2 powi (L + 1)" by linarith
  then have L: "1024 \<le> L" using pow2_less_exp [of 1024 "L + 1"] by simp
  then have e: "e = L - 52" by (simp add: e_def)
  have "(2::real) powi (52 + e) = 2 powi 52 * 2 powi e"
    by (rule power_int_add) simp
  moreover have "52 + e = L" by (simp add: e)
  ultimately have "(2::real) powi L = 2 powi 52 * 2 powi e"
    by (simp only:)
  then have "2 powi 52 * 2 powi e \<le> \<bar>x\<bar>" using lo by simp
  then have "(2::real) powi 52 \<le> \<bar>x\<bar> / 2 powi e"
    by (simp add: pos_le_divide_eq)
  then have "of_int (2 ^ 52) \<le> \<bar>x\<bar> / 2 powi e" by simp
  then have "2 ^ 52 \<le> \<lfloor>\<bar>x\<bar> / 2 powi e\<rfloor>" by (simp only: le_floor_iff)
  then have "2 ^ 52 \<le> r"
    unfolding r_def using roundHalfEven_ge_floor [of "\<bar>x\<bar> / 2 powi e"] by linarith
  then have "(2::real) powi 52 \<le> of_int r"
    by (metis of_int_le_iff of_int_numeral of_int_power power_int_numeral)
  then have "2 powi 52 * 2 powi e \<le> of_int r * (2::real) powi e"
    by (intro mult_right_mono) simp_all
  then have "2 powi L \<le> of_int r * (2::real) powi e"
    using \<open>(2::real) powi L = 2 powi 52 * 2 powi e\<close> by simp
  moreover have "(2::real) powi 1024 \<le> 2 powi L"
    using L by (intro power_int_increasing) simp_all
  ultimately have "2 powi 1024 \<le> of_int r * (2::real) powi e" by linarith
  then show ?thesis
    using x0 unfolding round64_def Let_def r_def e_def L_def by simp
qed

text \<open>
  A certificate for one rounding: \<open>x\<close> lies in the binade whose values are spaced \<open>2^e\<close>
  apart, and \<open>m * 2^e\<close> is nearer to \<open>x\<close> than half that spacing.
\<close>

lemma roundHalfEven_nearest:
  assumes "\<bar>q - of_int m\<bar> < 1 / 2"
  shows "roundHalfEven q = m"
proof (cases "of_int m \<le> q")
  case True
  then have "\<lfloor>q\<rfloor> = m" using assms by (intro floor_unique) linarith+
  then show ?thesis using assms True by (simp add: roundHalfEven_def Let_def)
next
  case False
  then have "\<lfloor>q\<rfloor> = m - 1" using assms by (intro floor_unique) (simp, linarith)+
  then show ?thesis using assms False by (simp add: roundHalfEven_def Let_def)
qed

lemma round64_nearest:
  assumes "2 powi (e + 52) \<le> x" and "x < 2 powi (e + 53)" and "- 1074 \<le> e" and "e \<le> 971"
    and "\<bar>x / 2 powi e - of_int m\<bar> < 1 / 2" and "m < 2 ^ 53"
  shows "round64 x = Fin (of_int m * 2 powi e)"
proof -
  have "(0::real) < 2 powi (e + 52)" by simp
  then have pos: "0 < x" using assms(1) by linarith
  have "(2::real) powi (ilog2 x) < 2 powi (e + 53)"
    using ilog2_bounds(1) [OF pos] assms(2) by linarith
  then have "ilog2 x < e + 53" by (rule pow2_less_exp)
  moreover have "(2::real) powi (e + 52) < 2 powi (ilog2 x + 1)"
    using ilog2_bounds(2) [OF pos] assms(1) by linarith
  then have "e + 52 < ilog2 x + 1" by (rule pow2_less_exp)
  ultimately have "ilog2 x = e + 52" by simp
  then have ex: "max (ilog2 \<bar>x\<bar> - 52) (- 1074) = e"
    using pos assms(3) by simp
  have r: "roundHalfEven (\<bar>x\<bar> / 2 powi e) = m"
    using pos assms(5) by (intro roundHalfEven_nearest) simp
  have "of_int m < (2::real) ^ 53"
    using assms(6) by (metis of_int_less_iff of_int_numeral of_int_power)
  then have "of_int m * 2 powi e < 2 ^ 53 * (2::real) powi e"
    by (intro mult_strict_right_mono) simp_all
  also have "(2::real) ^ 53 * 2 powi e = 2 powi (53 + e)"
    by (simp add: power_int_add)
  also have "\<dots> \<le> 2 powi 1024"
    using assms(4) by (intro power_int_increasing) simp_all
  finally have "\<not> 2 powi 1024 \<le> of_int m * (2::real) powi e" by simp
  then show ?thesis
    using pos unfolding round64_def Let_def ex r by simp
qed

text \<open>
  Some roundings: one tenth is not a binary64 value; a tie goes to the even significand;
  the largest finite value is its own rounding, and \<open>2^1024\<close> overflows.
\<close>

lemma round64_tenth: "round64 (1 / 10) = Fin (3602879701896397 / 36028797018963968)"
  using round64_nearest [of "- 56" "1 / 10" 7205759403792794] by simp

lemma round64_tie_even: "round64 (2 ^ 53 + 1) = Fin (2 ^ 53)"
  by code_simp

lemma round64_largest: "round64 (2 ^ 1024 - 2 ^ 971) = Fin (2 ^ 1024 - 2 ^ 971)"
  using round64_exact [of "2 ^ 1024 - 2 ^ 971" "2 ^ 53 - 1" 971] by simp

lemma round64_beyond: "round64 (2 ^ 1024) = PosInf"
  by (subst round64_overflow) simp_all





subsection \<open>Numbers and objects\<close>

lemma divide_by_zero_not_finite: "\<not> isFinite (a / Fin 0)"
  by (cases a) simp_all

lemma plus_not_finite: "\<not> isFinite b \<Longrightarrow> \<not> isFinite (a + b)"
  by (cases a; cases b) simp_all

lemma override_None: "override None b = b"
  by (cases b) simp_all

lemma spread_undefined: "spread None updates = updates"
  by (cases updates) (simp add: spread_def emptyObject_def override_None)

lemma spread_position:
  "spread (Some el) (emptyObject\<lparr>el_x := Some nx, el_y := Some ny\<rparr>) =
     el\<lparr>el_x := Some nx, el_y := Some ny\<rparr>"
  by (cases el) (simp add: spread_def emptyObject_def)

lemma spread_keeps_id: "el_id b = None \<Longrightarrow> el_id (spread (Some el) b) = el_id el"
  by (simp add: spread_def)

lemma editUpdates_no_id: "el_id (editUpdates ed) = None"
  by (cases ed) (simp_all add: emptyObject_def)

lemma enhancedText_known: "\<exists>v. enhancedText r (Some el) = Inr v"
  by (simp add: enhancedText_def)

lemma handlePositionUpdate_known:
  "elements d k = Some el \<Longrightarrow>
   handlePositionUpdate k nx ny d =
     d\<lparr>elements := (elements d)(k \<mapsto> el\<lparr>el_x := Some nx, el_y := Some ny\<rparr>)\<rparr>"
  by (simp add: handlePositionUpdate_def updateElement_def spread_position)

lemma initial_date:
  "elements INITIAL_STATE ''date'' =
     Some \<lparr>el_id = Some ''date'', el_label = Some date_label, el_text = Some date_text,
           el_x = Some (Fin 400), el_y = Some (Fin 120), el_fontSize = Some (Fin 48),
           el_fontFamily = Some ''Cairo'', el_color = Some ''#004d40'', el_width = None\<rparr>"
  by (simp add: INITIAL_STATE_def)


subsection \<open>One pointer-move\<close>

lemma handlePointerMove_idle:
  "\<not> isDragging st \<or> \<not> truthy (draggedId st) \<or> containerRef = None \<Longrightarrow>
   handlePointerMove d containerRef e st = Inr (st, [])"
  by (auto simp: handlePointerMove_def)

lemma handlePointerMove_active:
  "isDragging st \<Longrightarrow> draggedId st = Some k \<Longrightarrow> k \<noteq> [] \<Longrightarrow> elements d k = Some el \<Longrightarrow>
   handlePointerMove d (Some rect) e st =
     Inr (st\<lparr>dragOffset := \<lparr>pt_x = clientX e, pt_y = clientY e\<rparr>\<rparr>,
          [PreventDefault,
           OnUpdatePosition k
             (toNumber (el_x el) + (clientX e - pt_x (dragOffset st)) / (rect_width rect / Fin 1280))
             (toNumber (el_y el) + (clientY e - pt_y (dragOffset st)) / (rect_width rect / Fin 1280))])"
  by (simp add: handlePointerMove_def Let_def)

text \<open>
  A dragged identifier that is set but is no key of the element map is not covered by the
  guard: reading \<open>currentEl.x\<close> throws. The invariant excludes it.
\<close>

lemma handlePointerMove_missing_element:
  "isDragging st \<Longrightarrow> draggedId st = Some k \<Longrightarrow> k \<noteq> [] \<Longrightarrow> elements d k = None \<Longrightarrow>
   handlePointerMove d (Some rect) e st = Inl TypeError"
  by (simp add: handlePointerMove_def Let_def)

lemma dispatch_move_idle:
  "\<not> isDragging (canvas s) \<or> \<not> truthy (draggedId (canvas s)) \<or> containerRef = None \<Longrightarrow>
   dispatch s (PointerMove e containerRef) = Inr s"
  by (simp add: handlePointerMove_idle)

lemma dispatch_move_active:
  assumes "isDragging (canvas s)" and "draggedId (canvas s) = Some k" and "k \<noteq> []"
    and "elements (data (app s)) k = Some el"
  shows "dispatch s (PointerMove e (Some rect)) =
     Inr \<lparr>app = (app s)\<lparr>data := (data (app s))\<lparr>elements := (elements (data (app s)))
              (k \<mapsto> el\<lparr>el_x := Some (toNumber (el_x el) +
                              (clientX e - pt_x (dragOffset (canvas s))) / (rect_width rect / Fin 1280)),
                         el_y := Some (toNumber (el_y el) +
                              (clientY e - pt_y (dragOffset (canvas s))) / (rect_width rect / Fin 1280))\<rparr>)\<rparr>\<rparr>,
          canvas = (canvas s)\<lparr>dragOffset := \<lparr>pt_x = clientX e, pt_y = clientY e\<rparr>\<rparr>\<rparr>"
  using assms by (simp add: handlePointerMove_active handlePositionUpdate_known)

lemma dispatch_down_initial:
  "dispatch initialSystem (PointerDown ''date'' \<lparr>clientX = Fin 100, clientY = Fin 100\<rparr>) =
     Inr midDragOfDate"
  by (simp add: initialSystem_def midDragOfDate_def initial_date handlePointerDown_def
      initialDragState_def)


subsection \<open>Runs of events\<close>

lemma run_append:
  "run s (xs @ ys) = (case run s xs of Inl err \<Rightarrow> Inl err | Inr s' \<Rightarrow> run s' ys)"
  by (induction xs arbitrary: s) (simp_all split: sum.splits del: dispatch.simps)

text \<open>What one pointer-move of an active drag keeps, and what a run of them keeps.\<close>

lemma dispatch_move_keeps:
  assumes "isDragging (canvas s)" and "draggedId (canvas s) = Some b"
    and "elements (data (app s)) b = Some el"
  shows "\<exists>s' el'. dispatch s (PointerMove e r) = Inr s'
     \<and> isDragging (canvas s') \<and> draggedId (canvas s') = Some b
     \<and> selectedId (app s') = selectedId (app s)
     \<and> backgroundImage (data (app s')) = backgroundImage (data (app s))
     \<and> elements (data (app s')) b = Some el'
     \<and> (\<forall>k. k \<noteq> b \<longrightarrow> elements (data (app s')) k = elements (data (app s)) k)"
proof (cases "b = [] \<or> r = None")
  case True
  then have "dispatch s (PointerMove e r) = Inr s"
    using assms(2) by (intro dispatch_move_idle) auto
  then show ?thesis using assms by simp
next
  case False
  then obtain rect where r: "r = Some rect" and b: "b \<noteq> []" by auto
  show ?thesis
    unfolding r dispatch_move_active [OF assms(1,2) b assms(3)]
    using assms(1,2) by simp
qed

lemma run_moves_keep:
  assumes "isDragging (canvas s)" and "draggedId (canvas s) = Some b"
    and "elements (data (app s)) b = Some el"
  shows "\<exists>s' el'. run s (map (\<lambda>(e, r). PointerMove e r) ms) = Inr s'
     \<and> isDragging (canvas s') \<and> draggedId (canvas s') = Some b
     \<and> selectedId (app s') = selectedId (app s)
     \<and> backgroundImage (data (app s')) = backgroundImage (data (app s))
     \<and> elements (data (app s')) b = Some el'
     \<and> (\<forall>k. k \<noteq> b \<longrightarrow> elements (data (app s')) k = elements (data (app s)) k)"
  using assms
proof (induction ms arbitrary: s el)
  case Nil
  then show ?case by simp
next
  case (Cons m ms)
  obtain e r where m: "m = (e, r)" by (cases m)
  from dispatch_move_keeps [OF Cons.prems, of e r]
  obtain s1 el1 where s1: "dispatch s (PointerMove e r) = Inr s1"
    and k1: "isDragging (canvas s1)" "draggedId (canvas s1) = Some b"
      "elements (data (app s1)) b = Some el1"
    and f1: "selectedId (app s1) = selectedId (app s)"
      "backgroundImage (data (app s1)) = backgroundImage (data (app s))"
      "\<forall>k. k \<noteq> b \<longrightarrow> elements (data (app s1)) k = elements (data (app s)) k"
    by blast
  from Cons.IH [OF k1] f1 show ?case
    by (simp add: m s1 del: dispatch.simps)
qed

text \<open>Which events can change the selection.\<close>

lemma dispatch_selection:
  assumes "dispatch s ev = Inr s'" and "selectedId (app s') \<noteq> selectedId (app s)"
  shows "(\<exists>k e. ev = PointerDown k e) \<or> (\<exists>v. ev = SetSelectedId v)"
proof (cases ev)
  case (PointerMove e r)
  show ?thesis
  proof (cases "handlePointerMove (data (app s)) r e (canvas s)")
    case (Inl err)
    then show ?thesis using assms PointerMove by simp
  next
    case (Inr res)
    then have "snd res = [] \<or> (\<exists>k nx ny. snd res = [PreventDefault, OnUpdatePosition k nx ny])"
      by (auto simp: handlePointerMove_def Let_def split: if_splits option.splits)
    then show ?thesis using assms PointerMove Inr by (cases res) auto
  qed
next
  case (SidebarEdit ed)
  then show ?thesis using assms by (auto simp: sidebarEdit_def split: option.splits)
next
  case (AiEnhanced fd et)
  then show ?thesis using assms by (auto split: sum.splits)
qed (use assms in auto)


section \<open>Pointer-move: the coordinate mapping\<close>

text \<open>
  Claim C1. On a pointer-move while a drag is active and the rendering surface is mounted,
  the controller computes \<open>scale = renderedWidth / 1280\<close> from the bounding box, divides
  the device-space delta (current pointer minus anchor) by the scale, requests the
  position (stored x plus logical delta x, stored y plus logical delta y) for the dragged
  element, and resets the anchor to the current pointer position.
\<close>

theorem pointer_move_requests_scaled_position:
  assumes "isDragging st" and "draggedId st = Some k" and "k \<noteq> []"
    and "containerRef = Some rect" and "elements d k = Some el"
  shows "handlePointerMove d containerRef e st =
     Inr (st\<lparr>dragOffset := \<lparr>pt_x = clientX e, pt_y = clientY e\<rparr>\<rparr>,
          [PreventDefault,
           OnUpdatePosition k
             (toNumber (el_x el) + (clientX e - pt_x (dragOffset st)) / (rect_width rect / Fin 1280))
             (toNumber (el_y el) + (clientY e - pt_y (dragOffset st)) / (rect_width rect / Fin 1280))])"
  using assms by (simp add: handlePointerMove_def Let_def)

text \<open>
  The two scenarios of the claim: the element \<open>date\<close> at \<open>(400, 120)\<close>, pointer-down at
  \<open>(100, 100)\<close>, pointer-move to \<open>(110, 115)\<close>. Rendered 1280 wide (scale 1) the request
  is \<open>(410, 135)\<close>; rendered 640 wide (scale 0.5) it is \<open>(420, 150)\<close>.
\<close>

theorem pointer_move_requests_scaled_position_witness:
  "handlePointerMove INITIAL_STATE (Some \<lparr>rect_width = Fin 1280, rect_height = Fin 720\<rparr>)
       \<lparr>clientX = Fin 110, clientY = Fin 115\<rparr>
       (fst (handlePointerDown \<lparr>clientX = Fin 100, clientY = Fin 100\<rparr> ''date''
               (Some (Fin 400)) (Some (Fin 120)) initialDragState))
     = Inr (\<lparr>isDragging = True, dragOffset = \<lparr>pt_x = Fin 110, pt_y = Fin 115\<rparr>,
              draggedId = Some ''date''\<rparr>,
            [PreventDefault, OnUpdatePosition ''date'' (Fin 410) (Fin 135)])
   \<and> handlePointerMove INITIAL_STATE (Some \<lparr>rect_width = Fin 640, rect_height = Fin 360\<rparr>)
       \<lparr>clientX = Fin 110, clientY = Fin 115\<rparr>
       (fst (handlePointerDown \<lparr>clientX = Fin 100, clientY = Fin 100\<rparr> ''date''
               (Some (Fin 400)) (Some (Fin 120)) initialDragState))
     = Inr (\<lparr>isDragging = True, dragOffset = \<lparr>pt_x = Fin 110, pt_y = Fin 115\<rparr>,
              draggedId = Some ''date''\<rparr>,
            [PreventDefault, OnUpdatePosition ''date'' (Fin 420) (Fin 150)])"
proof -
  let ?down = "fst (handlePointerDown \<lparr>clientX = Fin 100, clientY = Fin 100\<rparr> ''date''
               (Some (Fin 400)) (Some (Fin 120)) initialDragState)"
  have st: "?down = \<lparr>isDragging = True, dragOffset = \<lparr>pt_x = Fin 100, pt_y = Fin 100\<rparr>,
              draggedId = Some ''date''\<rparr>"
    by (simp add: handlePointerDown_def initialDragState_def)
  have a: "isDragging ?down" and b: "draggedId ?down = Some ''date''" and c: "''date'' \<noteq> []"
    by (simp_all add: st)
  note full = pointer_move_requests_scaled_position [OF a b c refl initial_date,
      of "\<lparr>rect_width = Fin 1280, rect_height = Fin 720\<rparr>"
         "\<lparr>clientX = Fin 110, clientY = Fin 115\<rparr>"]
  note half = pointer_move_requests_scaled_position [OF a b c refl initial_date,
      of "\<lparr>rect_width = Fin 640, rect_height = Fin 360\<rparr>"
         "\<lparr>clientX = Fin 110, clientY = Fin 115\<rparr>"]
  show ?thesis
    using full half by (simp add: st minus_jsnum_def)
qed

text \<open>
  Claim C3. A pointer-move received while no drag is active, or while the dragged
  identifier is unset (\<open>null\<close> or the empty string), or while the reference to the
  rendering surface is unavailable, is a no-op: the handler calls nothing, so no position
  update is emitted, and the state of the controller and of the host is unchanged.
\<close>

theorem pointer_move_noop:
  assumes "\<not> isDragging (canvas s) \<or> \<not> truthy (draggedId (canvas s)) \<or> containerRef = None"
  shows "handlePointerMove d containerRef e (canvas s) = Inr (canvas s, [])
     \<and> dispatch s (PointerMove e containerRef) = Inr s"
proof -
  have "handlePointerMove d' containerRef e (canvas s) = Inr (canvas s, [])" for d'
    using assms by (auto simp: handlePointerMove_def)
  then show ?thesis by simp
qed

text \<open>
  The three cases at concrete inputs: idle with the surface mounted; the dragging flag set
  with no identifier; dragging \<open>date\<close> with the surface not mounted.
\<close>

theorem pointer_move_noop_witness:
  "dispatch initialSystem
       (PointerMove \<lparr>clientX = Fin 110, clientY = Fin 115\<rparr>
          (Some \<lparr>rect_width = Fin 640, rect_height = Fin 360\<rparr>))
     = Inr initialSystem
   \<and> dispatch (initialSystem\<lparr>canvas := initialDragState\<lparr>isDragging := True\<rparr>\<rparr>)
       (PointerMove \<lparr>clientX = Fin 110, clientY = Fin 115\<rparr>
          (Some \<lparr>rect_width = Fin 640, rect_height = Fin 360\<rparr>))
     = Inr (initialSystem\<lparr>canvas := initialDragState\<lparr>isDragging := True\<rparr>\<rparr>)
   \<and> handlePointerMove INITIAL_STATE None \<lparr>clientX = Fin 110, clientY = Fin 115\<rparr>
       (canvas midDragOfDate)
     = Inr (canvas midDragOfDate, [])
   \<and> dispatch midDragOfDate (PointerMove \<lparr>clientX = Fin 110, clientY = Fin 115\<rparr> None)
     = Inr midDragOfDate"
proof -
  let ?unset = "initialSystem\<lparr>canvas := initialDragState\<lparr>isDragging := True\<rparr>\<rparr>"
  have idle: "\<not> isDragging (canvas initialSystem) \<or> \<not> truthy (draggedId (canvas initialSystem))
      \<or> Some \<lparr>rect_width = Fin 640, rect_height = Fin 360\<rparr> = None"
    by (simp add: initialSystem_def initialDragState_def)
  have unset: "\<not> isDragging (canvas ?unset) \<or> \<not> truthy (draggedId (canvas ?unset))
      \<or> Some \<lparr>rect_width = Fin 640, rect_height = Fin 360\<rparr> = None"
    by (simp add: initialDragState_def)
  have unmounted: "\<not> isDragging (canvas midDragOfDate)
      \<or> \<not> truthy (draggedId (canvas midDragOfDate)) \<or> (None :: DOMRect option) = None"
    by simp
  show ?thesis
    using pointer_move_noop [OF idle, of INITIAL_STATE "\<lparr>clientX = Fin 110, clientY = Fin 115\<rparr>"]
      pointer_move_noop [OF unset, of INITIAL_STATE "\<lparr>clientX = Fin 110, clientY = Fin 115\<rparr>"]
      pointer_move_noop [OF unmounted, of INITIAL_STATE "\<lparr>clientX = Fin 110, clientY = Fin 115\<rparr>"]
    by (simp del: dispatch.simps)
qed

text \<open>
  Claim C6. With a drag active and the surface mounted but rendered zero pixels wide, the
  scale is 0 and the pointer-move is neither skipped nor clamped nor an error: the
  division is carried out and the position update that is emitted has non-finite
  coordinates.
\<close>

theorem zero_width_emits_non_finite:
  assumes "isDragging st" and "draggedId st = Some k" and "k \<noteq> []"
    and "containerRef = Some rect" and "rect_width rect = Fin 0" and "elements d k = Some el"
  shows "\<exists>nx ny. handlePointerMove d containerRef e st =
           Inr (st\<lparr>dragOffset := \<lparr>pt_x = clientX e, pt_y = clientY e\<rparr>\<rparr>,
                [PreventDefault, OnUpdatePosition k nx ny])
         \<and> \<not> isFinite nx \<and> \<not> isFinite ny"
  using assms
  by (simp add: handlePointerMove_def Let_def plus_not_finite divide_by_zero_not_finite)

text \<open>
  Dragging \<open>date\<close> from \<open>(100, 100)\<close> to \<open>(100, 115)\<close> over a surface of width 0: the
  requested position is \<open>(NaN, Infinity)\<close>.
\<close>

theorem zero_width_emits_non_finite_witness:
  "handlePointerMove INITIAL_STATE (Some \<lparr>rect_width = Fin 0, rect_height = Fin 0\<rparr>)
       \<lparr>clientX = Fin 100, clientY = Fin 115\<rparr> (canvas midDragOfDate)
     = Inr (\<lparr>isDragging = True, dragOffset = \<lparr>pt_x = Fin 100, pt_y = Fin 115\<rparr>,
              draggedId = Some ''date''\<rparr>,
            [PreventDefault, OnUpdatePosition ''date'' NaN PosInf])
   \<and> \<not> isFinite NaN \<and> \<not> isFinite PosInf"
proof -
  have a: "isDragging (canvas midDragOfDate)"
    and b: "draggedId (canvas midDragOfDate) = Some ''date''" and c: "''date'' \<noteq> []"
    and w: "rect_width \<lparr>rect_width = Fin 0, rect_height = Fin 0\<rparr> = Fin 0"
    by (simp_all add: midDragOfDate_def)
  show ?thesis
    using zero_width_emits_non_finite [OF a b c refl w initial_date,
        of "\<lparr>clientX = Fin 100, clientY = Fin 115\<rparr>"]
    by (simp add: midDragOfDate_def handlePointerMove_def Let_def initial_date minus_jsnum_def)
qed


subsection \<open>Incremental moves compose within a tolerance\<close>






section \<open>Pointer-up\<close>

text \<open>
  Claim C4. In every state in which a drag is active, a pointer-up leaves the controller
  idle (dragging flag cleared, dragged identifier cleared), whatever the position of the
  pointer: both for the handler written for the element and for the listener on the
  document, which is the one every pointer-up reaches.
\<close>

theorem pointer_up_ends_drag:
  assumes "isDragging (canvas s)"
  shows "handlePointerUp (canvas s) = (canvas s)\<lparr>isDragging := False, draggedId := None\<rparr>
     \<and> handleGlobalUp (canvas s) = (canvas s)\<lparr>isDragging := False, draggedId := None\<rparr>
     \<and> dispatch s (WindowPointerUp e) =
         Inr (s\<lparr>canvas := (canvas s)\<lparr>isDragging := False, draggedId := None\<rparr>\<rparr>)"
  using assms by (simp add: handlePointerUp_def handleGlobalUp_def)

theorem pointer_up_ends_drag_witness:
  "isDragging (canvas midDragOfDate)
   \<and> dispatch midDragOfDate (WindowPointerUp \<lparr>clientX = Fin 5000, clientY = Fin (- 40)\<rparr>) =
       Inr \<lparr>app = \<lparr>data = INITIAL_STATE, selectedId = Some ''date''\<rparr>,
            canvas = \<lparr>isDragging = False, dragOffset = \<lparr>pt_x = Fin 100, pt_y = Fin 100\<rparr>,
                       draggedId = None\<rparr>\<rparr>"
proof -
  have a: "isDragging (canvas midDragOfDate)"
    by (simp add: midDragOfDate_def)
  show ?thesis
    using a pointer_up_ends_drag [OF a, of "\<lparr>clientX = Fin 5000, clientY = Fin (- 40)\<rparr>"]
    by (simp add: midDragOfDate_def del: dispatch.simps)
qed

text \<open>
  Claim C9. Ending a drag clears only the dragging flag and the dragged identifier: the
  anchor stays, and the host (selection and poster) is untouched, so after a whole gesture
  on a rendered element \<open>b\<close> (pointer-down, any moves, pointer-up) \<open>b\<close> is still the
  selected element. The selection changes only on a pointer-down or on a call of
  \<open>setSelectedId\<close> by the host itself.
\<close>

theorem pointer_up_keeps_selection:
  "dragOffset (handlePointerUp st) = dragOffset st
   \<and> dragOffset (handleGlobalUp st) = dragOffset st
   \<and> (\<exists>s'. dispatch s (WindowPointerUp e) = Inr s' \<and> app s' = app s
          \<and> dragOffset (canvas s') = dragOffset (canvas s))
   \<and> (\<forall>ev s'. dispatch s ev = Inr s' \<and> selectedId (app s') \<noteq> selectedId (app s) \<longrightarrow>
          (\<exists>k e'. ev = PointerDown k e') \<or> (\<exists>v. ev = SetSelectedId v))
   \<and> (\<forall>b el e0 ms. elements (data (app s)) b = Some el \<longrightarrow>
          (\<exists>s'. run s (PointerDown b e0 # map (\<lambda>(e', r). PointerMove e' r) ms
                          @ [WindowPointerUp e]) = Inr s'
             \<and> selectedId (app s') = Some b
             \<and> \<not> isDragging (canvas s') \<and> draggedId (canvas s') = None))"
proof -
  have gesture: "\<exists>s'. run s (PointerDown b e0 # map (\<lambda>(e', r). PointerMove e' r) ms
                          @ [WindowPointerUp e]) = Inr s'
             \<and> selectedId (app s') = Some b
             \<and> \<not> isDragging (canvas s') \<and> draggedId (canvas s') = None"
    if b: "elements (data (app s)) b = Some el" for b el e0 ms
  proof -
    define s1 where "s1 = \<lparr>app = (app s)\<lparr>selectedId := Some b\<rparr>,
       canvas = \<lparr>isDragging = True, dragOffset = \<lparr>pt_x = clientX e0, pt_y = clientY e0\<rparr>,
                  draggedId = Some b\<rparr>\<rparr>"
    have d: "dispatch s (PointerDown b e0) = Inr s1"
      using b by (simp add: handlePointerDown_def s1_def)
    have k1: "isDragging (canvas s1)" "draggedId (canvas s1) = Some b"
      "elements (data (app s1)) b = Some el"
      using b by (simp_all add: s1_def)
    from run_moves_keep [OF k1, of ms]
    obtain s2 where s2: "run s1 (map (\<lambda>(e', r). PointerMove e' r) ms) = Inr s2"
      "isDragging (canvas s2)" "selectedId (app s2) = Some b"
      by (auto simp: s1_def)
    show ?thesis
      by (simp add: d run_append s2 del: dispatch.simps) (simp add: s2 handleGlobalUp_def)
  qed
  show ?thesis
    using dispatch_selection [of s] gesture
    by (simp add: handlePointerUp_def handleGlobalUp_def)
qed

text \<open>
  From the initial editor, where \<open>title\<close> is selected: the pointer-down on \<open>date\<close>
  changes the selection, and after the gesture on \<open>date\<close> the selection is \<open>date\<close>.
\<close>

theorem pointer_up_keeps_selection_witness:
  "dispatch initialSystem (PointerDown ''date'' \<lparr>clientX = Fin 100, clientY = Fin 100\<rparr>)
     = Inr midDragOfDate
   \<and> selectedId (app midDragOfDate) \<noteq> selectedId (app initialSystem)
   \<and> (\<exists>s'. run initialSystem
              [PointerDown ''date'' \<lparr>clientX = Fin 100, clientY = Fin 100\<rparr>,
               PointerMove \<lparr>clientX = Fin 110, clientY = Fin 115\<rparr>
                 (Some \<lparr>rect_width = Fin 640, rect_height = Fin 360\<rparr>),
               WindowPointerUp \<lparr>clientX = Fin 110, clientY = Fin 115\<rparr>] = Inr s'
         \<and> selectedId (app s') = Some ''date''
         \<and> \<not> isDragging (canvas s') \<and> draggedId (canvas s') = None)"
proof -
  have el: "elements (data (app initialSystem)) ''date'' =
     Some \<lparr>el_id = Some ''date'', el_label = Some date_label, el_text = Some date_text,
           el_x = Some (Fin 400), el_y = Some (Fin 120), el_fontSize = Some (Fin 48),
           el_fontFamily = Some ''Cairo'', el_color = Some ''#004d40'', el_width = None\<rparr>"
    by (simp add: initialSystem_def initial_date)
  have sel: "selectedId (app midDragOfDate) \<noteq> selectedId (app initialSystem)"
    by (simp add: midDragOfDate_def initialSystem_def)
  note inst = pointer_up_keeps_selection [of _ initialSystem "\<lparr>clientX = Fin 110, clientY = Fin 115\<rparr>"]
  from inst have "\<exists>s'. run initialSystem
        (PointerDown ''date'' \<lparr>clientX = Fin 100, clientY = Fin 100\<rparr>
          # map (\<lambda>(e', r). PointerMove e' r)
              [(\<lparr>clientX = Fin 110, clientY = Fin 115\<rparr>,
                Some \<lparr>rect_width = Fin 640, rect_height = Fin 360\<rparr>)]
          @ [WindowPointerUp \<lparr>clientX = Fin 110, clientY = Fin 115\<rparr>]) = Inr s'
         \<and> selectedId (app s') = Some ''date''
         \<and> \<not> isDragging (canvas s') \<and> draggedId (canvas s') = None"
    using el by blast
  then show ?thesis
    using sel dispatch_down_initial by (simp del: dispatch.simps run.simps)
qed


section \<open>Pointer-down\<close>




section \<open>The poster state\<close>

subsection \<open>The invariant\<close>

lemma wellFormed_initial: "wellFormed initialSystem"
  by (auto simp: wellFormed_def initialSystem_def INITIAL_STATE_def initialDragState_def
      elementKeys_def split: if_splits)

lemma wellFormed_update:
  assumes "wellFormed s" and "elements (data (app s)) k = Some el" and "el_id el' = Some k"
  shows "wellFormed (s\<lparr>app := (app s)\<lparr>data := (data (app s))\<lparr>elements :=
           (elements (data (app s)))(k \<mapsto> el')\<rparr>\<rparr>\<rparr>)"
  using assms by (auto simp: wellFormed_def)

lemma wellFormed_dispatch:
  assumes "wellFormed s"
  shows "\<exists>s'. dispatch s ev = Inr s' \<and> wellFormed s'"
proof (cases ev)
  case (PointerDown key e)
  show ?thesis
  proof (cases "elements (data (app s)) key")
    case None
    then show ?thesis using assms PointerDown by simp
  next
    case (Some el)
    then have "key \<in> elementKeys" using assms by (auto simp: wellFormed_def)
    then show ?thesis using assms PointerDown Some
      by (simp add: handlePointerDown_def wellFormed_def)
  qed
next
  case (PointerMove e r)
  show ?thesis
  proof (cases "\<not> isDragging (canvas s) \<or> \<not> truthy (draggedId (canvas s)) \<or> r = None")
    case True
    then show ?thesis using assms PointerMove by (simp add: dispatch_move_idle del: dispatch.simps)
  next
    case False
    then obtain k rect where k: "isDragging (canvas s)" "draggedId (canvas s) = Some k" "k \<noteq> []"
      and r: "r = Some rect"
      by (cases "draggedId (canvas s)") auto
    then have "k \<in> dom (elements (data (app s)))" using assms by (simp add: wellFormed_def)
    then obtain el where el: "elements (data (app s)) k = Some el" by auto
    then have ident: "el_id el = Some k" using assms by (simp add: wellFormed_def)
    show ?thesis
      unfolding PointerMove r dispatch_move_active [OF k el]
      using assms el ident by (auto simp: wellFormed_def)
  qed
next
  case (WindowPointerUp e)
  then show ?thesis using assms by (auto simp: handleGlobalUp_def wellFormed_def)
next
  case (SetSelectedId v)
  then show ?thesis using assms by (simp add: wellFormed_def)
next
  case (SidebarEdit ed)
  show ?thesis
  proof (cases "if truthy (selectedId (app s))
      then elements (data (app s)) (propertyKey (selectedId (app s))) else None")
    case None
    then show ?thesis using assms SidebarEdit by (simp add: sidebarEdit_def)
  next
    case (Some el)
    then have el: "elements (data (app s)) (propertyKey (selectedId (app s))) = Some el"
      by (simp split: if_splits)
    then have ident: "el_id el = Some (propertyKey (selectedId (app s)))"
      using assms by (simp add: wellFormed_def)
    have "dispatch s ev = Inr (s\<lparr>app := (app s)\<lparr>data := (data (app s))\<lparr>elements :=
        (elements (data (app s)))(propertyKey (selectedId (app s)) \<mapsto>
           spread (Some el) (editUpdates ed))\<rparr>\<rparr>\<rparr>)"
      using Some el ident by (simp add: SidebarEdit sidebarEdit_def updateElement_def)
    moreover have "el_id (spread (Some el) (editUpdates ed)) =
        Some (propertyKey (selectedId (app s)))"
      by (simp add: spread_keeps_id editUpdates_no_id ident)
    ultimately show ?thesis using wellFormed_update [OF assms el] by simp
  qed
next
  case (SetBackgroundImage img)
  then show ?thesis using assms by (simp add: wellFormed_def)
next
  case (AiEnhanced fd et)
  let ?prev = "data (app s)"
  from assms have "''date'' \<in> dom (elements ?prev)" "''title'' \<in> dom (elements ?prev)"
    by (simp_all add: wellFormed_def elementKeys_def)
  then obtain d t where d: "elements ?prev ''date'' = Some d"
    and t: "elements ?prev ''title'' = Some t"
    by auto
  then have ids: "el_id d = Some ''date''" "el_id t = Some ''title''"
    using assms by (simp_all add: wellFormed_def)
  obtain dt tt where e: "enhancedText fd (Some d) = Inr dt" "enhancedText et (Some t) = Inr tt"
    using enhancedText_known [of fd d] enhancedText_known [of et t] by blast
  let ?d' = "spread (Some d) (emptyObject\<lparr>el_text := dt\<rparr>)"
  let ?t' = "spread (Some t) (emptyObject\<lparr>el_text := tt\<rparr>)"
  have ids': "el_id ?d' = Some ''date''" "el_id ?t' = Some ''title''"
    by (simp_all add: spread_keeps_id emptyObject_def ids)
  let ?s1 = "s\<lparr>app := (app s)\<lparr>data := ?prev\<lparr>elements :=
      (elements ?prev)(''date'' \<mapsto> ?d')\<rparr>\<rparr>\<rparr>"
  have w1: "wellFormed ?s1"
    by (rule wellFormed_update [OF assms d ids'(1)])
  have t1: "elements (data (app ?s1)) ''title'' = Some t"
    using t by simp
  have w2: "wellFormed (?s1\<lparr>app := (app ?s1)\<lparr>data := (data (app ?s1))\<lparr>elements :=
       (elements (data (app ?s1)))(''title'' \<mapsto> ?t')\<rparr>\<rparr>\<rparr>)"
    by (rule wellFormed_update [OF w1 t1 ids'(2)])
  have "dispatch s ev = Inr (?s1\<lparr>app := (app ?s1)\<lparr>data := (data (app ?s1))\<lparr>elements :=
       (elements (data (app ?s1)))(''title'' \<mapsto> ?t')\<rparr>\<rparr>\<rparr>)"
    by (simp add: AiEnhanced aiEnhancementUpdate_def d t e)
  with w2 show ?thesis by blast
qed

lemma wellFormed_run:
  "wellFormed s \<Longrightarrow> \<exists>s'. run s evs = Inr s' \<and> wellFormed s'"
proof (induction evs arbitrary: s)
  case Nil
  then show ?case by simp
next
  case (Cons ev evs)
  from wellFormed_dispatch [OF Cons.prems, of ev]
  obtain s1 where "dispatch s ev = Inr s1" "wellFormed s1" by blast
  with Cons.IH [of s1] show ?case by (simp del: dispatch.simps)
qed

subsection \<open>The element map keeps its keys\<close>

text \<open>
  Claim C7. The poster state starts with exactly the four elements \<open>date\<close>,
  \<open>honorific\<close>, \<open>name\<close> and \<open>title\<close>. Every sequence of events of the editor (pointer
  events on the canvas, selections and edits in the sidebar, background changes, text
  enhancement) runs without an exception and ends in a state whose element map has
  exactly these four keys, each element still carrying its key as its \<open>id\<close>: no element
  is added or removed, only field values change. The handlers of the drag controller
  return a controller state and a list of calls; the poster state is changed by the host
  alone, when it applies a call.
\<close>

theorem element_keys_fixed:
  "\<exists>s. run initialSystem evs = Inr s
     \<and> dom (elements INITIAL_STATE) = {''date'', ''honorific'', ''name'', ''title''}
     \<and> dom (elements (data (app s))) = {''date'', ''honorific'', ''name'', ''title''}
     \<and> (\<forall>k. map_option el_id (elements (data (app s)) k) =
            (if k \<in> {''date'', ''honorific'', ''name'', ''title''} then Some (Some k) else None))"
proof -
  from wellFormed_run [OF wellFormed_initial, of evs]
  obtain s where s: "run initialSystem evs = Inr s" "wellFormed s" by blast
  have "map_option el_id (elements (data (app s)) k) =
            (if k \<in> {''date'', ''honorific'', ''name'', ''title''} then Some (Some k) else None)" for k
  proof (cases "elements (data (app s)) k")
    case None
    then have "k \<notin> elementKeys" using s(2) by (auto simp: wellFormed_def)
    then show ?thesis using None by (simp add: elementKeys_def)
  next
    case (Some el)
    then have "k \<in> elementKeys" "el_id el = Some k" using s(2) by (auto simp: wellFormed_def)
    then show ?thesis using Some by (simp add: elementKeys_def)
  qed
  then have ids: "\<forall>k. map_option el_id (elements (data (app s)) k) =
            (if k \<in> {''date'', ''honorific'', ''name'', ''title''} then Some (Some k) else None)"
    by (rule allI)
  have keys: "dom (elements (data (app s))) = {''date'', ''honorific'', ''name'', ''title''}"
    using s(2) by (simp add: wellFormed_def elementKeys_def)
  have keys0: "dom (elements INITIAL_STATE) = {''date'', ''honorific'', ''name'', ''title''}"
    using wellFormed_initial by (simp add: wellFormed_def elementKeys_def initialSystem_def)
  show ?thesis
    by (rule exI [of _ s]) (intro conjI s(1) keys0 keys ids)
qed

text \<open>
  A drag of \<open>date\<close>, a colour edit of the selected element and a text enhancement: the
  run ends, and the keys are the four initial ones.
\<close>

theorem element_keys_fixed_witness:
  "\<exists>s. run initialSystem
          [PointerDown ''date'' \<lparr>clientX = Fin 100, clientY = Fin 100\<rparr>,
           PointerMove \<lparr>clientX = Fin 110, clientY = Fin 115\<rparr>
             (Some \<lparr>rect_width = Fin 640, rect_height = Fin 360\<rparr>),
           WindowPointerUp \<lparr>clientX = Fin 110, clientY = Fin 115\<rparr>,
           SidebarEdit (EditColor ''#000000''),
           AiEnhanced None (Some ''Lecture'')] = Inr s
     \<and> dom (elements (data (app s))) = {''date'', ''honorific'', ''name'', ''title''}"
proof -
  from element_keys_fixed
    [of "[PointerDown ''date'' \<lparr>clientX = Fin 100, clientY = Fin 100\<rparr>,
           PointerMove \<lparr>clientX = Fin 110, clientY = Fin 115\<rparr>
             (Some \<lparr>rect_width = Fin 640, rect_height = Fin 360\<rparr>),
           WindowPointerUp \<lparr>clientX = Fin 110, clientY = Fin 115\<rparr>,
           SidebarEdit (EditColor ''#000000''),
           AiEnhanced None (Some ''Lecture'')]"]
  obtain s where "run initialSystem
          [PointerDown ''date'' \<lparr>clientX = Fin 100, clientY = Fin 100\<rparr>,
           PointerMove \<lparr>clientX = Fin 110, clientY = Fin 115\<rparr>
             (Some \<lparr>rect_width = Fin 640, rect_height = Fin 360\<rparr>),
           WindowPointerUp \<lparr>clientX = Fin 110, clientY = Fin 115\<rparr>,
           SidebarEdit (EditColor ''#000000''),
           AiEnhanced None (Some ''Lecture'')] = Inr s"
    and "dom (elements (data (app s))) = {''date'', ''honorific'', ''name'', ''title''}"
    by (elim exE conjE)
  then show ?thesis by (intro exI conjI)
qed

subsection \<open>Position updates\<close>

text \<open>
  Claim C8. A position update for an element of the poster changes the \<open>x\<close> and \<open>y\<close> of
  that element and nothing else: its other fields, the other elements and the background
  image are as before. An event handled by the drag controller either leaves the poster
  state as it is or changes it by exactly one such update, applied by the host for the
  dragged element; the controller does not write the poster state.
\<close>

theorem position_update_changes_only_xy:
  "(elements d k = Some el \<longrightarrow>
      handlePositionUpdate k nx ny d =
        d\<lparr>elements := (elements d)(k \<mapsto> el\<lparr>el_x := Some nx, el_y := Some ny\<rparr>)\<rparr>)
   \<and> (isControllerEvent ev \<and> dispatch s ev = Inr s' \<longrightarrow>
        data (app s') = data (app s)
        \<or> (\<exists>k' el' nx' ny'. draggedId (canvas s) = Some k'
              \<and> elements (data (app s)) k' = Some el'
              \<and> data (app s') = handlePositionUpdate k' nx' ny' (data (app s))
              \<and> data (app s') = (data (app s))\<lparr>elements := (elements (data (app s)))
                    (k' \<mapsto> el'\<lparr>el_x := Some nx', el_y := Some ny'\<rparr>)\<rparr>))"
proof -
  have host: "handlePositionUpdate k nx ny d =
        d\<lparr>elements := (elements d)(k \<mapsto> el\<lparr>el_x := Some nx, el_y := Some ny\<rparr>)\<rparr>"
    if "elements d k = Some el"
    using that by (rule handlePositionUpdate_known)
  have controller: "data (app s') = data (app s)
        \<or> (\<exists>k' el' nx' ny'. draggedId (canvas s) = Some k'
              \<and> elements (data (app s)) k' = Some el'
              \<and> data (app s') = handlePositionUpdate k' nx' ny' (data (app s))
              \<and> data (app s') = (data (app s))\<lparr>elements := (elements (data (app s)))
                    (k' \<mapsto> el'\<lparr>el_x := Some nx', el_y := Some ny'\<rparr>)\<rparr>)"
    if c: "isControllerEvent ev" and d: "dispatch s ev = Inr s'"
  proof (cases ev)
    case (PointerDown key e)
    then show ?thesis using d
      by (auto simp: handlePointerDown_def split: option.splits)
  next
    case (PointerMove e r)
    show ?thesis
    proof (cases "\<not> isDragging (canvas s) \<or> \<not> truthy (draggedId (canvas s)) \<or> r = None")
      case True
      then have "dispatch s ev = Inr s"
        unfolding PointerMove by (rule dispatch_move_idle)
      then show ?thesis using d by simp
    next
      case False
      then obtain k' rect where k: "isDragging (canvas s)" "draggedId (canvas s) = Some k'"
          "k' \<noteq> []" and r: "r = Some rect"
        by (cases "draggedId (canvas s)") auto
      show ?thesis
      proof (cases "elements (data (app s)) k'")
        case None
        then have "dispatch s ev = Inl TypeError"
          using handlePointerMove_missing_element [OF k None] by (simp add: PointerMove r)
        then show ?thesis using d by simp
      next
        case (Some el')
        from d have "data (app s') = (data (app s))\<lparr>elements := (elements (data (app s)))
            (k' \<mapsto> el'\<lparr>el_x := Some (toNumber (el_x el') +
                   (clientX e - pt_x (dragOffset (canvas s))) / (rect_width rect / Fin 1280)),
                 el_y := Some (toNumber (el_y el') +
                   (clientY e - pt_y (dragOffset (canvas s))) / (rect_width rect / Fin 1280))\<rparr>)\<rparr>"
          unfolding PointerMove r dispatch_move_active [OF k Some] by auto
        then show ?thesis
          using k(2) Some handlePositionUpdate_known [OF Some] by metis
      qed
    qed
  next
    case (WindowPointerUp e)
    then show ?thesis using d by auto
  qed (use c in simp_all)
  show ?thesis using host controller by blast
qed

text \<open>
  The move of the first scenario, handled by the whole editor: of the poster state only
  the position of \<open>date\<close> changes, to \<open>(420, 150)\<close>.
\<close>

theorem position_update_changes_only_xy_witness:
  "elements INITIAL_STATE ''date'' =
     Some \<lparr>el_id = Some ''date'', el_label = Some date_label, el_text = Some date_text,
           el_x = Some (Fin 400), el_y = Some (Fin 120), el_fontSize = Some (Fin 48),
           el_fontFamily = Some ''Cairo'', el_color = Some ''#004d40'', el_width = None\<rparr>
   \<and> handlePositionUpdate ''date'' (Fin 420) (Fin 150) INITIAL_STATE =
       INITIAL_STATE\<lparr>elements := (elements INITIAL_STATE)(''date'' \<mapsto>
         \<lparr>el_id = Some ''date'', el_label = Some date_label, el_text = Some date_text,
          el_x = Some (Fin 420), el_y = Some (Fin 150), el_fontSize = Some (Fin 48),
          el_fontFamily = Some ''Cairo'', el_color = Some ''#004d40'', el_width = None\<rparr>)\<rparr>
   \<and> isControllerEvent (PointerMove \<lparr>clientX = Fin 110, clientY = Fin 115\<rparr>
         (Some \<lparr>rect_width = Fin 640, rect_height = Fin 360\<rparr>))
   \<and> dispatch midDragOfDate (PointerMove \<lparr>clientX = Fin 110, clientY = Fin 115\<rparr>
         (Some \<lparr>rect_width = Fin 640, rect_height = Fin 360\<rparr>)) =
       Inr \<lparr>app = \<lparr>data = handlePositionUpdate ''date'' (Fin 420) (Fin 150) INITIAL_STATE,
                   selectedId = Some ''date''\<rparr>,
            canvas = \<lparr>isDragging = True, dragOffset = \<lparr>pt_x = Fin 110, pt_y = Fin 115\<rparr>,
                       draggedId = Some ''date''\<rparr>\<rparr>"
proof -
  have run: "dispatch midDragOfDate (PointerMove \<lparr>clientX = Fin 110, clientY = Fin 115\<rparr>
         (Some \<lparr>rect_width = Fin 640, rect_height = Fin 360\<rparr>)) =
       Inr \<lparr>app = \<lparr>data = handlePositionUpdate ''date'' (Fin 420) (Fin 150) INITIAL_STATE,
                   selectedId = Some ''date''\<rparr>,
            canvas = \<lparr>isDragging = True, dragOffset = \<lparr>pt_x = Fin 110, pt_y = Fin 115\<rparr>,
                       draggedId = Some ''date''\<rparr>\<rparr>"
    by (simp add: midDragOfDate_def handlePointerMove_def Let_def initial_date minus_jsnum_def)
  show ?thesis
    using position_update_changes_only_xy
      [of INITIAL_STATE "''date''" _ "Fin 420" "Fin 150"
          "PointerMove \<lparr>clientX = Fin 110, clientY = Fin 115\<rparr>
             (Some \<lparr>rect_width = Fin 640, rect_height = Fin 360\<rparr>)" midDragOfDate]
      initial_date run
    by (simp del: dispatch.simps)
qed

text \<open>
  Claim C10. For some input, namely every identifier that is no key of the element map,
  the host's element update neither fails nor leaves the state unchanged: it inserts an
  entry under that identifier whose fields are exactly those of the update (the spread of
  the missing element contributes nothing), so the element map gains a key.
\<close>

theorem update_unknown_id_inserts:
  assumes "elements d k = None"
  shows "elements (updateElement k updates d) = (elements d)(k \<mapsto> updates)
     \<and> dom (elements (updateElement k updates d)) = insert k (dom (elements d))
     \<and> k \<notin> dom (elements d)
     \<and> backgroundImage (updateElement k updates d) = backgroundImage d"
  using assms by (auto simp: updateElement_def spread_undefined)

text \<open>
  A position update for \<open>subtitle\<close>, which the initial poster does not have: the map
  gains the key \<open>subtitle\<close>, bound to an object with only \<open>x\<close> and \<open>y\<close>.
\<close>

theorem update_unknown_id_inserts_witness:
  "elements INITIAL_STATE ''subtitle'' = None
   \<and> elements (handlePositionUpdate ''subtitle'' (Fin 10) (Fin 20) INITIAL_STATE) ''subtitle'' =
       Some \<lparr>el_id = None, el_label = None, el_text = None, el_x = Some (Fin 10),
             el_y = Some (Fin 20), el_fontSize = None, el_fontFamily = None, el_color = None,
             el_width = None\<rparr>
   \<and> dom (elements (handlePositionUpdate ''subtitle'' (Fin 10) (Fin 20) INITIAL_STATE)) =
       {''subtitle'', ''date'', ''honorific'', ''name'', ''title''}"
proof -
  have none: "elements INITIAL_STATE ''subtitle'' = None"
    by (simp add: INITIAL_STATE_def)
  have keys: "dom (elements INITIAL_STATE) = {''date'', ''honorific'', ''name'', ''title''}"
    using wellFormed_initial by (simp add: wellFormed_def elementKeys_def initialSystem_def)
  show ?thesis
    using update_unknown_id_inserts [OF none, of "emptyObject\<lparr>el_x := Some (Fin 10), el_y := Some (Fin 20)\<rparr>"]
      none keys
    by (simp add: handlePositionUpdate_def emptyObject_def)
qed

end
